theory Spec2Isabelle
  imports Complex_Main "HOL-Library.Word"
begin

unbundle bit_operations_syntax

section \<open>The geometry buffer of rts/Rendering/GL/GeometryBuffer.cpp\<close>

text \<open>
  The methods of \<open>GL::GeometryBuffer\<close> are embedded as functions on the object's fields,
  paired with the log of the OpenGL and framebuffer-object calls issued so far (oldest
  call first). An \<open>assert\<close> that does not hold ends the call with \<open>AssertionFailed\<close>
  (the build with assertions enabled). \<open>DrawDebug\<close> reads and writes no field of
  the object and is not embedded.
\<close>

subsection \<open>OpenGL types and enumerants\<close>

type_synonym GLuint = "32 word"
type_synonym GLenum = "32 word"
type_synonym int2 = "int \<times> int"

text \<open>The enumerants have the values of the OpenGL registry (\<open>gl.h\<close>, \<open>glext.h\<close>).\<close>

definition GL_TEXTURE_2D :: GLenum where "GL_TEXTURE_2D = 0x0DE1"
definition GL_TEXTURE_MAG_FILTER :: GLenum where "GL_TEXTURE_MAG_FILTER = 0x2800"
definition GL_TEXTURE_MIN_FILTER :: GLenum where "GL_TEXTURE_MIN_FILTER = 0x2801"
definition GL_TEXTURE_WRAP_S :: GLenum where "GL_TEXTURE_WRAP_S = 0x2802"
definition GL_TEXTURE_WRAP_T :: GLenum where "GL_TEXTURE_WRAP_T = 0x2803"
definition GL_CLAMP_TO_BORDER :: GLenum where "GL_CLAMP_TO_BORDER = 0x812D"
definition GL_LINEAR :: GLenum where "GL_LINEAR = 0x2601"
definition GL_DEPTH_TEXTURE_MODE :: GLenum where "GL_DEPTH_TEXTURE_MODE = 0x884B"
definition GL_LUMINANCE :: GLenum where "GL_LUMINANCE = 0x1909"
definition GL_DEPTH_COMPONENT32F :: GLenum where "GL_DEPTH_COMPONENT32F = 0x8CAC"
definition GL_DEPTH_COMPONENT :: GLenum where "GL_DEPTH_COMPONENT = 0x1902"
definition GL_FLOAT :: GLenum where "GL_FLOAT = 0x1406"
definition GL_RGBA :: GLenum where "GL_RGBA = 0x1908"
definition GL_UNSIGNED_BYTE :: GLenum where "GL_UNSIGNED_BYTE = 0x1401"
definition GL_COLOR_ATTACHMENT0 :: GLenum where "GL_COLOR_ATTACHMENT0 = 0x8CE0"
definition GL_DEPTH_ATTACHMENT :: GLenum where "GL_DEPTH_ATTACHMENT = 0x8D00"
definition GL_COLOR_BUFFER_BIT :: GLenum where "GL_COLOR_BUFFER_BIT = 0x4000"
definition GL_DEPTH_BUFFER_BIT :: GLenum where "GL_DEPTH_BUFFER_BIT = 0x0100"
definition GL_LEQUAL :: GLenum where "GL_LEQUAL = 0x0203"

subsection \<open>The call log\<close>

text \<open>
  One constructor for each OpenGL entry point and each method of the framebuffer object
  \<open>buffer\<close> that the file calls, with the arguments of the call. \<open>glGenTextures\<close>
  carries the name the driver stored; the image pointer of \<open>glTexImage2D\<close> is always
  \<open>nullptr\<close> and is left out. \<open>'f\<close> is the type of \<open>float\<close> arguments.
\<close>

datatype 'f GLcall =
    glGenTextures nat GLuint
  | glBindTexture GLenum GLuint
  | glTexParameteri GLenum GLenum GLenum
  | glTexImage2D GLenum int GLenum int int int GLenum GLenum
  | glDrawBuffers nat "GLenum list"
  | glDeleteTextures nat "GLuint list"
  | glClearColor 'f 'f 'f 'f
  | glClear GLenum
  | glClearDepth 'f
  | DepthFunc GLenum
  | FBO_Bind
  | FBO_Unbind
  | FBO_Detach GLenum
  | FBO_AttachTexture GLuint GLenum GLenum
  | FBO_CheckStatus string

text \<open>
  What the environment answers. GeometryBuffer.h and the class \<open>FBO\<close> are not among the
  sources, so everything the file takes from them is a field here or a parameter below:
  \<^item> \<open>genTexture\<close>: the name \<open>glGenTextures(1, &id)\<close> stores, given the calls so far;
  \<^item> \<open>checkStatus\<close>: what \<open>buffer.CheckStatus(name)\<close> returns, given the calls so far;
  \<^item> \<open>validAfterCheck\<close>: what \<open>buffer.IsValid()\<close> answers once \<open>CheckStatus\<close> has
    returned (the comment in \<open>Create\<close> says that \<open>CheckStatus\<close> can invalidate the
    buffer, so the model does not fix this answer).
\<close>

record 'f driver =
  genTexture :: "'f GLcall list \<Rightarrow> GLuint"
  checkStatus :: "'f GLcall list \<Rightarrow> bool"
  validAfterCheck :: "'f GLcall list \<Rightarrow> bool"

text \<open>
  The enum of GeometryBuffer.h, a parameter of the model: the index of the depth slot and
  the number of slots.
\<close>

record hdr =
  ATTACHMENT_ZVALTEX :: nat
  ATTACHMENT_COUNT :: nat

text \<open>\<open>globalRendering\<close>, of which the file reads the view size only.\<close>

record GlobalRendering =
  viewSizeX :: int
  viewSizeY :: int

subsection \<open>The object\<close>

text \<open>
  Modelled from the spec: the class \<open>FBO\<close> of the field \<open>buffer\<close> is not among the
  sources. The spec: the surface is created once at construction and never replaced,
  only bound, unbound and populated. Of its state the file reads \<open>IsValid()\<close> only;
  \<open>Bind\<close>, \<open>Unbind\<close>, \<open>Detach\<close> and \<open>AttachTexture\<close> are entries of the call log
  and leave \<open>IsValid()\<close> as it is. \<open>CheckStatus\<close> is an entry of the call log as well;
  what it returns and what \<open>IsValid()\<close> answers after it are the driver's.
\<close>

datatype FBO = FBO (IsValid: bool)

record GeometryBuffer =
  buffer :: FBO
  bufferTextureIDs :: "GLuint list"
  bufferAttachments :: "GLenum list"
  prevBufferSize :: int2
  currBufferSize :: int2
  dead :: bool
  bound :: bool
  name :: string

datatype failure = AssertionFailed

text \<open>
  The two arrays are declared with \<open>ATTACHMENT_COUNT\<close> elements, a positive number, and
  the depth slot is one of them.
\<close>

definition arrays_ok :: "hdr \<Rightarrow> GeometryBuffer \<Rightarrow> bool" where
  "arrays_ok h s =
     (0 < ATTACHMENT_COUNT h \<and> ATTACHMENT_ZVALTEX h < ATTACHMENT_COUNT h \<and>
      length (bufferTextureIDs s) = ATTACHMENT_COUNT h \<and>
      length (bufferAttachments s) = ATTACHMENT_COUNT h)"

text \<open>
  Modelled from the spec: \<open>HasAttachments\<close> is defined in GeometryBuffer.h, which is not
  among the sources. The spec: the buffer has attachments when any slot's tag is
  non-empty.
\<close>

definition HasAttachments :: "GeometryBuffer \<Rightarrow> bool" where
  "HasAttachments s = list_ex (\<lambda>a. a \<noteq> 0) (bufferAttachments s)"

subsection \<open>GetWantedSize, Init\<close>

definition GetWantedSize :: "GlobalRendering \<Rightarrow> bool \<Rightarrow> int2" where
  "GetWantedSize gr allowed =
     (if allowed then (viewSizeX gr, viewSizeY gr) else (0, 0))"

definition Init ::
  "hdr \<Rightarrow> GlobalRendering \<Rightarrow> bool \<Rightarrow> GeometryBuffer \<times> 'f GLcall list
     \<Rightarrow> failure + GeometryBuffer \<times> 'f GLcall list" where
  "Init h gr ctor = (\<lambda>(s, gl).
     if \<not> (\<not> dead s \<or> \<not> ctor) then Inl AssertionFailed
     else Inr (s\<lparr>bufferTextureIDs := replicate (ATTACHMENT_COUNT h) 0,
                 bufferAttachments := replicate (ATTACHMENT_COUNT h) 0,
                 prevBufferSize := GetWantedSize gr False,
                 currBufferSize := GetWantedSize gr True,
                 dead := False,
                 bound := False\<rparr>, gl))"

subsection \<open>DetachTextures, Kill\<close>

text \<open>
  The loop of \<open>DetachTextures\<close> detaches the colour attachment points \<open>0\<close> to
  \<open>ATTACHMENT_COUNT - 2\<close> in turn (\<open>ATTACHMENT_COUNT\<close> is positive, see \<open>arrays_ok\<close>).
\<close>

definition DetachTextures ::
  "hdr \<Rightarrow> bool \<Rightarrow> GeometryBuffer \<times> 'f GLcall list \<Rightarrow> GeometryBuffer \<times> 'f GLcall list" where
  "DetachTextures h init = (\<lambda>(s, gl).
     if init then (s, gl)
     else
       (s\<lparr>bufferTextureIDs := replicate (ATTACHMENT_COUNT h) 0,
          bufferAttachments := replicate (ATTACHMENT_COUNT h) 0\<rparr>,
        gl @ [FBO_Bind]
           @ map (\<lambda>i. FBO_Detach (GL_COLOR_ATTACHMENT0 + of_nat i))
               [0 ..< ATTACHMENT_COUNT h - 1]
           @ [FBO_Detach GL_DEPTH_ATTACHMENT, FBO_Unbind,
              glDeleteTextures (ATTACHMENT_COUNT h)
                (take (ATTACHMENT_COUNT h) (bufferTextureIDs s))]))"

definition Kill ::
  "hdr \<Rightarrow> bool \<Rightarrow> GeometryBuffer \<times> 'f GLcall list
     \<Rightarrow> failure + GeometryBuffer \<times> 'f GLcall list" where
  "Kill h dtor = (\<lambda>(s, gl).
     if dead s then (if \<not> dtor then Inl AssertionFailed else Inr (s, gl))
     else
       (case (if IsValid (buffer s) then DetachTextures h False (s, gl) else (s, gl)) of
          (s', gl') \<Rightarrow> Inr (s'\<lparr>dead := True\<rparr>, gl')))"

subsection \<open>Clear, SetDepthRange\<close>

definition Clear ::
  "GeometryBuffer \<times> ('f::zero) GLcall list \<Rightarrow> failure + GeometryBuffer \<times> 'f GLcall list" where
  "Clear = (\<lambda>(s, gl).
     if \<not> bound s then Inl AssertionFailed
     else Inr (s, gl @ [glClearColor 0 0 0 0,
                        glClear (GL_COLOR_BUFFER_BIT OR GL_DEPTH_BUFFER_BIT)]))"

text \<open>\<open>std::max(a, b)\<close> is \<open>(a < b) ? b : a\<close>.\<close>

definition std_max :: "('f::ord) \<Rightarrow> 'f \<Rightarrow> 'f" where
  "std_max a b = (if a < b then b else a)"

text \<open>The branch under \<open>#if 0\<close> is not compiled. The method contains no assertion.\<close>

definition SetDepthRange ::
  "('f::ord) \<Rightarrow> 'f \<Rightarrow> GeometryBuffer \<times> 'f GLcall list \<Rightarrow> GeometryBuffer \<times> 'f GLcall list" where
  "SetDepthRange nearDepth farDepth = (\<lambda>(s, gl).
     (s, gl @ [glClearDepth (std_max nearDepth farDepth), DepthFunc GL_LEQUAL]))"

subsection \<open>Create\<close>

text \<open>
  One pass of the first loop of \<open>Create\<close> with counter \<open>n\<close>: it allocates the image
  of slot \<open>n\<close> and records the slot's attachment point.
\<close>

definition Create_alloc_body ::
  "hdr \<Rightarrow> 'f driver \<Rightarrow> int2 \<Rightarrow> nat \<Rightarrow> GeometryBuffer \<times> 'f GLcall list
     \<Rightarrow> GeometryBuffer \<times> 'f GLcall list" where
  "Create_alloc_body h drv sz n = (\<lambda>(s, gl).
     let tex = genTexture drv gl;
         s1 = s\<lparr>bufferTextureIDs := (bufferTextureIDs s)[n := tex]\<rparr>;
         gl1 = gl @ [glGenTextures 1 tex,
                     glBindTexture GL_TEXTURE_2D tex,
                     glTexParameteri GL_TEXTURE_2D GL_TEXTURE_WRAP_S GL_CLAMP_TO_BORDER,
                     glTexParameteri GL_TEXTURE_2D GL_TEXTURE_WRAP_T GL_CLAMP_TO_BORDER,
                     glTexParameteri GL_TEXTURE_2D GL_TEXTURE_MIN_FILTER GL_LINEAR,
                     glTexParameteri GL_TEXTURE_2D GL_TEXTURE_MAG_FILTER GL_LINEAR]
     in if n = ATTACHMENT_ZVALTEX h then
          (s1\<lparr>bufferAttachments := (bufferAttachments s1)[n := GL_DEPTH_ATTACHMENT]\<rparr>,
           gl1 @ [glTexParameteri GL_TEXTURE_2D GL_DEPTH_TEXTURE_MODE GL_LUMINANCE,
                  glTexImage2D GL_TEXTURE_2D 0 GL_DEPTH_COMPONENT32F (fst sz) (snd sz) 0
                    GL_DEPTH_COMPONENT GL_FLOAT])
        else
          (s1\<lparr>bufferAttachments :=
                (bufferAttachments s1)[n := GL_COLOR_ATTACHMENT0 + of_nat n]\<rparr>,
           gl1 @ [glTexImage2D GL_TEXTURE_2D 0 GL_RGBA (fst sz) (snd sz) 0
                    GL_RGBA GL_UNSIGNED_BYTE]))"

text \<open>
  The loop \<open>for (; n < ATTACHMENT_COUNT; n++)\<close>, entered with counter \<open>n\<close>. It returns
  the counter with which it ends, which the second loop starts from.
\<close>

function Create_alloc ::
  "hdr \<Rightarrow> 'f driver \<Rightarrow> int2 \<Rightarrow> nat \<Rightarrow> GeometryBuffer \<times> 'f GLcall list
     \<Rightarrow> nat \<times> GeometryBuffer \<times> 'f GLcall list" where
  "Create_alloc h drv sz n st =
     (if n < ATTACHMENT_COUNT h
      then Create_alloc h drv sz (Suc n) (Create_alloc_body h drv sz n st)
      else (n, st))"
  by pat_completeness auto
termination
  by (relation "measure (\<lambda>(h, drv, sz, n, st). ATTACHMENT_COUNT h - n)") auto

text \<open>
  The second loop, \<open>for (buffer.Bind(); n > 0; n--)\<close>, after the call of \<open>Bind\<close>:
  it attaches the slots \<open>n - 1\<close> down to \<open>0\<close>.
\<close>

fun Create_attach :: "nat \<Rightarrow> GeometryBuffer \<Rightarrow> 'f GLcall list \<Rightarrow> 'f GLcall list" where
  "Create_attach 0 s gl = gl"
| "Create_attach (Suc m) s gl =
     Create_attach m s
       (gl @ [FBO_AttachTexture (bufferTextureIDs s ! m) GL_TEXTURE_2D
                (bufferAttachments s ! m)])"

definition Create ::
  "hdr \<Rightarrow> 'f driver \<Rightarrow> int2 \<Rightarrow> GeometryBuffer \<times> 'f GLcall list
     \<Rightarrow> failure + bool \<times> GeometryBuffer \<times> 'f GLcall list" where
  "Create h drv sz = (\<lambda>(s, gl).
     case Create_alloc h drv sz 0 (s, gl) of (n, s1, gl1) \<Rightarrow>
       (let gl2 = Create_attach n s1 (gl1 @ [FBO_Bind]);
            gl3 = gl2 @ [glBindTexture GL_TEXTURE_2D 0,
                         glDrawBuffers (ATTACHMENT_COUNT h - 1)
                           (take (ATTACHMENT_COUNT h - 1) (bufferAttachments s1))]
        in if \<not> IsValid (buffer s1) then Inl AssertionFailed
           else
             (let gl4 = gl3 @ [FBO_CheckStatus (name s1)]
              in Inr (checkStatus drv gl3,
                      s1\<lparr>buffer := FBO (validAfterCheck drv gl4)\<rparr>,
                      gl4 @ [FBO_Unbind]))))"

subsection \<open>Update\<close>

definition Update ::
  "hdr \<Rightarrow> GlobalRendering \<Rightarrow> 'f driver \<Rightarrow> bool \<Rightarrow> GeometryBuffer \<times> 'f GLcall list
     \<Rightarrow> failure + bool \<times> GeometryBuffer \<times> 'f GLcall list" where
  "Update h gr drv init = (\<lambda>(s0, gl).
     let s = s0\<lparr>currBufferSize := GetWantedSize gr True\<rparr>
     in if \<not> IsValid (buffer s) then Inr (False, s, gl)
        else if HasAttachments s \<and> prevBufferSize s = currBufferSize s then Inr (True, s, gl)
        else
          (case (if HasAttachments s then DetachTextures h init (s, gl) else (s, gl)) of
             (s1, gl1) \<Rightarrow>
               Create h drv (currBufferSize s1)
                 (s1\<lparr>prevBufferSize := currBufferSize s1\<rparr>, gl1)))"

subsection \<open>Vocabulary of the properties\<close>

text \<open>The attachment point that the first loop of \<open>Create\<close> records for slot \<open>n\<close>.\<close>

definition attachment_point :: "hdr \<Rightarrow> nat \<Rightarrow> GLenum" where
  "attachment_point h n =
     (if n = ATTACHMENT_ZVALTEX h then GL_DEPTH_ATTACHMENT else GL_COLOR_ATTACHMENT0 + of_nat n)"

text \<open>The calls that create and configure texture images.\<close>

fun is_texture_call :: "'f GLcall \<Rightarrow> bool" where
  "is_texture_call (glGenTextures k t) = True"
| "is_texture_call (glBindTexture tg t) = True"
| "is_texture_call (glTexParameteri tg p v) = True"
| "is_texture_call (glTexImage2D tg l f w ht b fmt ty) = True"
| "is_texture_call _ = False"

text \<open>An image allocation of the given size.\<close>

fun is_TexImage :: "int2 \<Rightarrow> 'f GLcall \<Rightarrow> bool" where
  "is_TexImage sz (glTexImage2D tg l f w ht b fmt ty) = ((w, ht) = sz)"
| "is_TexImage sz _ = False"

text \<open>The calls that detach an attachment point or delete textures.\<close>

fun is_release :: "'f GLcall \<Rightarrow> bool" where
  "is_release (FBO_Detach a) = True"
| "is_release (glDeleteTextures k ts) = True"
| "is_release _ = False"

text \<open>The calls of \<open>Create\<close> that follow the allocation loop, for the object \<open>s1\<close> the loop leaves.\<close>

definition Create_tail :: "hdr \<Rightarrow> GeometryBuffer \<Rightarrow> 'f GLcall list" where
  "Create_tail h s1 =
     FBO_Bind #
     map (\<lambda>i. FBO_AttachTexture (bufferTextureIDs s1 ! i) GL_TEXTURE_2D (bufferAttachments s1 ! i))
       (rev [0 ..< ATTACHMENT_COUNT h]) @
     [glBindTexture GL_TEXTURE_2D 0,
      glDrawBuffers (ATTACHMENT_COUNT h - 1) (take (ATTACHMENT_COUNT h - 1) (bufferAttachments s1)),
      FBO_CheckStatus (name s1), FBO_Unbind]"

text \<open>A caller that runs \<open>Update\<close> once for each flag of a list, as long as no call aborts.\<close>

fun Updates ::
  "hdr \<Rightarrow> GlobalRendering \<Rightarrow> 'f driver \<Rightarrow> bool list \<Rightarrow> GeometryBuffer \<times> 'f GLcall list
     \<Rightarrow> failure + GeometryBuffer \<times> 'f GLcall list" where
  "Updates h gr drv [] st = Inr st"
| "Updates h gr drv (init # inits) st =
     (case Update h gr drv init st of
        Inl e \<Rightarrow> Inl e
      | Inr (ret, st') \<Rightarrow> Updates h gr drv inits st')"

subsection \<open>Concrete inputs\<close>

definition hdr6 :: hdr where
  "hdr6 = \<lparr>ATTACHMENT_ZVALTEX = 5, ATTACHMENT_COUNT = 6\<rparr>"

definition view800 :: GlobalRendering where
  "view800 = \<lparr>viewSizeX = 800, viewSizeY = 600\<rparr>"

text \<open>A driver that hands out the names 1, 2, ... and reports the given status.\<close>

definition counting_driver :: "bool \<Rightarrow> bool \<Rightarrow> real driver" where
  "counting_driver st va =
     \<lparr>genTexture = (\<lambda>gl. of_nat (Suc (length (filter (\<lambda>c. case c of glGenTextures k t \<Rightarrow> True | _ \<Rightarrow> False) gl)))),
      checkStatus = (\<lambda>gl. st),
      validAfterCheck = (\<lambda>gl. va)\<rparr>"

text \<open>An object as its constructor leaves it before \<open>Init(true)\<close>: alive, no images.\<close>

definition fresh_gb :: GeometryBuffer where
  "fresh_gb =
     \<lparr>buffer = FBO True,
      bufferTextureIDs = replicate 6 0,
      bufferAttachments = replicate 6 0,
      prevBufferSize = (0, 0),
      currBufferSize = (0, 0),
      dead = False,
      bound = False,
      name = ''GEOMETRY-BUFFER''\<rparr>"

text \<open>The object after a reload at a view of 800 by 600.\<close>

definition reloaded_gb :: GeometryBuffer where
  "reloaded_gb =
     \<lparr>buffer = FBO True,
      bufferTextureIDs = replicate 6 0,
      bufferAttachments = replicate 6 0,
      prevBufferSize = (0, 0),
      currBufferSize = (800, 600),
      dead = False,
      bound = False,
      name = ''GEOMETRY-BUFFER''\<rparr>"

text \<open>An object that holds six images realized at 640 by 480.\<close>

definition used_gb :: GeometryBuffer where
  "used_gb =
     \<lparr>buffer = FBO True,
      bufferTextureIDs = [101, 102, 103, 104, 105, 106],
      bufferAttachments = [0x8CE0, 0x8CE1, 0x8CE2, 0x8CE3, 0x8CE4, 0x8D00],
      prevBufferSize = (640, 480),
      currBufferSize = (640, 480),
      dead = False,
      bound = False,
      name = ''GEOMETRY-BUFFER''\<rparr>"

section \<open>The allocation loop\<close>

declare Create_alloc.simps [simp del]

lemma body_frame:
  "buffer (fst (Create_alloc_body h drv sz n st)) = buffer (fst st)"
  "prevBufferSize (fst (Create_alloc_body h drv sz n st)) = prevBufferSize (fst st)"
  "currBufferSize (fst (Create_alloc_body h drv sz n st)) = currBufferSize (fst st)"
  "dead (fst (Create_alloc_body h drv sz n st)) = dead (fst st)"
  "bound (fst (Create_alloc_body h drv sz n st)) = bound (fst st)"
  "name (fst (Create_alloc_body h drv sz n st)) = name (fst st)"
  "length (bufferTextureIDs (fst (Create_alloc_body h drv sz n st))) = length (bufferTextureIDs (fst st))"
  "length (bufferAttachments (fst (Create_alloc_body h drv sz n st))) = length (bufferAttachments (fst st))"
  by (cases st; simp add: Create_alloc_body_def Let_def)+

lemma body_other_slots:
  "i \<noteq> n \<Longrightarrow> bufferTextureIDs (fst (Create_alloc_body h drv sz n st)) ! i = bufferTextureIDs (fst st) ! i"
  "i \<noteq> n \<Longrightarrow> bufferAttachments (fst (Create_alloc_body h drv sz n st)) ! i = bufferAttachments (fst st) ! i"
  by (cases st; simp add: Create_alloc_body_def Let_def)+

lemma body_slot:
  "n < length (bufferTextureIDs (fst st)) \<Longrightarrow>
     bufferTextureIDs (fst (Create_alloc_body h drv sz n st)) ! n = genTexture drv (snd st)"
  "n < length (bufferAttachments (fst st)) \<Longrightarrow>
     bufferAttachments (fst (Create_alloc_body h drv sz n st)) ! n = attachment_point h n"
  by (cases st; simp add: Create_alloc_body_def Let_def attachment_point_def)+

lemma body_log:
  "\<exists>ext. snd (Create_alloc_body h drv sz n st) = snd st @ ext \<and> list_all is_texture_call ext \<and>
     length (filter (is_TexImage sz) ext) = 1 \<and> glGenTextures 1 (genTexture drv (snd st)) \<in> set ext"
  by (cases st; simp add: Create_alloc_body_def Let_def)

lemma alloc_counter: "fst (Create_alloc h drv sz n st) = max n (ATTACHMENT_COUNT h)"
  by (induction h drv sz n st rule: Create_alloc.induct) (subst Create_alloc.simps, simp)

lemma alloc_frame:
  "buffer (fst (snd (Create_alloc h drv sz n st))) = buffer (fst st)"
  "prevBufferSize (fst (snd (Create_alloc h drv sz n st))) = prevBufferSize (fst st)"
  "currBufferSize (fst (snd (Create_alloc h drv sz n st))) = currBufferSize (fst st)"
  "dead (fst (snd (Create_alloc h drv sz n st))) = dead (fst st)"
  "bound (fst (snd (Create_alloc h drv sz n st))) = bound (fst st)"
  "name (fst (snd (Create_alloc h drv sz n st))) = name (fst st)"
  "length (bufferTextureIDs (fst (snd (Create_alloc h drv sz n st)))) = length (bufferTextureIDs (fst st))"
  "length (bufferAttachments (fst (snd (Create_alloc h drv sz n st)))) = length (bufferAttachments (fst st))"
  by (induction h drv sz n st rule: Create_alloc.induct; subst Create_alloc.simps; simp add: body_frame)+

lemma alloc_lower_slots:
  "i < n \<Longrightarrow> bufferTextureIDs (fst (snd (Create_alloc h drv sz n st))) ! i = bufferTextureIDs (fst st) ! i"
  "i < n \<Longrightarrow> bufferAttachments (fst (snd (Create_alloc h drv sz n st))) ! i = bufferAttachments (fst st) ! i"
  by (induction h drv sz n st rule: Create_alloc.induct; subst Create_alloc.simps; simp add: body_other_slots)+

lemma alloc_tags:
  "n \<le> i \<Longrightarrow> i < ATTACHMENT_COUNT h \<Longrightarrow> i < length (bufferAttachments (fst st)) \<Longrightarrow>
     bufferAttachments (fst (snd (Create_alloc h drv sz n st))) ! i = attachment_point h i"
proof (induction h drv sz n st rule: Create_alloc.induct)
  case (1 h drv sz n st)
  show ?case
  proof (cases "i = n")
    case True
    with 1 show ?thesis
      by (subst Create_alloc.simps) (simp add: alloc_lower_slots body_slot)
  next
    case False
    with 1 show ?thesis
      by (subst Create_alloc.simps) (simp add: body_frame)
  qed
qed

lemma alloc_log:
  "\<exists>ext. snd (snd (Create_alloc h drv sz n st)) = snd st @ ext \<and> list_all is_texture_call ext \<and>
     length (filter (is_TexImage sz) ext) = ATTACHMENT_COUNT h - n \<and>
     (\<forall>i. n \<le> i \<and> i < ATTACHMENT_COUNT h \<and> i < length (bufferTextureIDs (fst st)) \<longrightarrow>
        glGenTextures 1 (bufferTextureIDs (fst (snd (Create_alloc h drv sz n st))) ! i) \<in> set ext)"
proof (induction h drv sz n st rule: Create_alloc.induct)
  case (1 h drv sz n st)
  show ?case
  proof (cases "n < ATTACHMENT_COUNT h")
    case False
    then show ?thesis by (subst (1 2) Create_alloc.simps) simp
  next
    case True
    define st1 where "st1 = Create_alloc_body h drv sz n st"
    have unf: "Create_alloc h drv sz n st = Create_alloc h drv sz (Suc n) st1"
      using True by (subst Create_alloc.simps) (simp add: st1_def)
    obtain e1 where e1: "snd st1 = snd st @ e1" "list_all is_texture_call e1"
      "length (filter (is_TexImage sz) e1) = 1" "glGenTextures 1 (genTexture drv (snd st)) \<in> set e1"
      using body_log[of h drv sz n st] unfolding st1_def by blast
    obtain e2 where e2: "snd (snd (Create_alloc h drv sz (Suc n) st1)) = snd st1 @ e2"
      "list_all is_texture_call e2"
      "length (filter (is_TexImage sz) e2) = ATTACHMENT_COUNT h - Suc n"
      "\<forall>i. Suc n \<le> i \<and> i < ATTACHMENT_COUNT h \<and> i < length (bufferTextureIDs (fst st1)) \<longrightarrow>
        glGenTextures 1 (bufferTextureIDs (fst (snd (Create_alloc h drv sz (Suc n) st1))) ! i) \<in> set e2"
      using 1[OF True] unfolding st1_def by blast
    have len: "length (bufferTextureIDs (fst st1)) = length (bufferTextureIDs (fst st))"
      by (simp add: st1_def body_frame)
    have slot_n: "n < length (bufferTextureIDs (fst st)) \<Longrightarrow>
        bufferTextureIDs (fst (snd (Create_alloc h drv sz (Suc n) st1))) ! n = genTexture drv (snd st)"
      by (simp add: alloc_lower_slots st1_def body_slot)
    have "snd (snd (Create_alloc h drv sz n st)) = snd st @ (e1 @ e2)"
      by (simp add: unf e1 e2)
    moreover have "list_all is_texture_call (e1 @ e2)" using e1 e2 by simp
    moreover have "length (filter (is_TexImage sz) (e1 @ e2)) = ATTACHMENT_COUNT h - n"
      using e1 e2 True by simp
    moreover have "\<forall>i. n \<le> i \<and> i < ATTACHMENT_COUNT h \<and> i < length (bufferTextureIDs (fst st)) \<longrightarrow>
        glGenTextures 1 (bufferTextureIDs (fst (snd (Create_alloc h drv sz n st))) ! i) \<in> set (e1 @ e2)"
    proof (intro allI impI)
      fix i assume i: "n \<le> i \<and> i < ATTACHMENT_COUNT h \<and> i < length (bufferTextureIDs (fst st))"
      show "glGenTextures 1 (bufferTextureIDs (fst (snd (Create_alloc h drv sz n st))) ! i) \<in> set (e1 @ e2)"
      proof (cases "i = n")
        case True
        then show ?thesis using i slot_n e1(4) by (simp add: unf)
      next
        case False
        then have "Suc n \<le> i" using i by simp
        then show ?thesis using i e2(4) len by (simp add: unf)
      qed
    qed
    ultimately show ?thesis by blast
  qed
qed

section \<open>Create\<close>

lemma Create_attach_eq:
  "Create_attach n s gl =
     gl @ map (\<lambda>i. FBO_AttachTexture (bufferTextureIDs s ! i) GL_TEXTURE_2D (bufferAttachments s ! i))
            (rev [0 ..< n])"
  by (induction n arbitrary: gl) simp_all

lemma Create_Inl: "\<not> IsValid (buffer s) \<Longrightarrow> Create h drv sz (s, gl) = Inl AssertionFailed"
  using alloc_frame(1)[of h drv sz 0 "(s, gl)"]
  by (auto simp add: Create_def Let_def split: prod.splits)

lemma Create_Inr:
  assumes "IsValid (buffer s)"
  shows "\<exists>ret v s1 ext.
     Create h drv sz (s, gl) = Inr (ret, s1\<lparr>buffer := FBO v\<rparr>, gl @ ext @ Create_tail h s1) \<and>
     s1 = fst (snd (Create_alloc h drv sz 0 (s, gl))) \<and>
     ret = checkStatus drv (gl @ ext @ butlast (butlast (Create_tail h s1))) \<and>
     v = validAfterCheck drv (gl @ ext @ butlast (Create_tail h s1)) \<and>
     list_all is_texture_call ext \<and>
     length (filter (is_TexImage sz) ext) = ATTACHMENT_COUNT h \<and>
     (\<forall>i. i < ATTACHMENT_COUNT h \<and> i < length (bufferTextureIDs s) \<longrightarrow>
        glGenTextures 1 (bufferTextureIDs s1 ! i) \<in> set ext)"
proof -
  obtain k s1 gl1 where c: "Create_alloc h drv sz 0 (s, gl) = (k, s1, gl1)"
    by (cases "Create_alloc h drv sz 0 (s, gl)") auto
  have k: "k = ATTACHMENT_COUNT h" using alloc_counter[of h drv sz 0 "(s, gl)"] c by simp
  have v: "IsValid (buffer s1)" using alloc_frame(1)[of h drv sz 0 "(s, gl)"] c assms by simp
  obtain ext where e: "gl1 = gl @ ext" "list_all is_texture_call ext"
     "length (filter (is_TexImage sz) ext) = ATTACHMENT_COUNT h"
     "\<forall>i. i < ATTACHMENT_COUNT h \<and> i < length (bufferTextureIDs s) \<longrightarrow>
        glGenTextures 1 (bufferTextureIDs s1 ! i) \<in> set ext"
    using alloc_log[of h drv sz 0 "(s, gl)"] c by auto
  have "Create h drv sz (s, gl) =
      Inr (checkStatus drv (gl @ ext @ butlast (butlast (Create_tail h s1))),
           s1\<lparr>buffer := FBO (validAfterCheck drv (gl @ ext @ butlast (Create_tail h s1)))\<rparr>,
           gl @ ext @ Create_tail h s1)"
    using v by (simp add: Create_def c k e(1) Create_attach_eq Create_tail_def Let_def butlast_append)
  with e c show ?thesis by auto
qed

lemma texture_call_not_release: "is_texture_call c \<Longrightarrow> \<not> is_release c"
  by (cases c) simp_all

lemma Create_tail_no_TexImage: "filter (is_TexImage sz) (Create_tail h s1) = []"
  by (simp add: Create_tail_def filter_map comp_def)

lemma Create_tail_no_release: "list_all (\<lambda>c. \<not> is_release c) (Create_tail h s1)"
  by (simp add: Create_tail_def list_all_iff)

lemma Create_tail_Bind: "FBO_Bind \<in> set (Create_tail h s1)"
  by (simp add: Create_tail_def)

lemma Create_result:
  assumes "IsValid (buffer s)"
  shows "\<exists>ret s2 ext.
     Create h drv sz (s, gl) = Inr (ret, s2, gl @ ext) \<and>
     prevBufferSize s2 = prevBufferSize s \<and> currBufferSize s2 = currBufferSize s \<and>
     dead s2 = dead s \<and> bound s2 = bound s \<and> name s2 = name s \<and>
     length (bufferTextureIDs s2) = length (bufferTextureIDs s) \<and>
     length (bufferAttachments s2) = length (bufferAttachments s) \<and>
     (\<exists>X. ret = checkStatus drv X) \<and> (\<exists>Y. IsValid (buffer s2) = validAfterCheck drv Y) \<and>
     length (filter (is_TexImage sz) ext) = ATTACHMENT_COUNT h \<and>
     list_all (\<lambda>c. \<not> is_release c) ext \<and> FBO_Bind \<in> set ext \<and>
     (\<forall>i. i < ATTACHMENT_COUNT h \<and> i < length (bufferTextureIDs s) \<longrightarrow>
        glGenTextures 1 (bufferTextureIDs s2 ! i) \<in> set ext) \<and>
     (\<forall>i. i < ATTACHMENT_COUNT h \<and> i < length (bufferAttachments s) \<longrightarrow>
        bufferAttachments s2 ! i = attachment_point h i)"
proof -
  obtain ret v s1 ext where c:
    "Create h drv sz (s, gl) = Inr (ret, s1\<lparr>buffer := FBO v\<rparr>, gl @ ext @ Create_tail h s1)"
    "s1 = fst (snd (Create_alloc h drv sz 0 (s, gl)))"
    "ret = checkStatus drv (gl @ ext @ butlast (butlast (Create_tail h s1)))"
    "v = validAfterCheck drv (gl @ ext @ butlast (Create_tail h s1))"
    "list_all is_texture_call ext"
    "length (filter (is_TexImage sz) ext) = ATTACHMENT_COUNT h"
    "\<forall>i. i < ATTACHMENT_COUNT h \<and> i < length (bufferTextureIDs s) \<longrightarrow>
        glGenTextures 1 (bufferTextureIDs s1 ! i) \<in> set ext"
    using Create_Inr[OF assms, of h drv sz gl] by blast
  let ?s2 = "s1\<lparr>buffer := FBO v\<rparr>" and ?ext = "ext @ Create_tail h s1"
  have fr: "prevBufferSize ?s2 = prevBufferSize s" "currBufferSize ?s2 = currBufferSize s"
     "dead ?s2 = dead s" "bound ?s2 = bound s" "name ?s2 = name s"
     "length (bufferTextureIDs ?s2) = length (bufferTextureIDs s)"
     "length (bufferAttachments ?s2) = length (bufferAttachments s)"
    using alloc_frame[of h drv sz 0 "(s, gl)"] by (simp_all add: c(2))
  have tags: "\<forall>i. i < ATTACHMENT_COUNT h \<and> i < length (bufferAttachments s) \<longrightarrow>
        bufferAttachments ?s2 ! i = attachment_point h i"
    using alloc_tags[of 0 _ h "(s, gl)" drv sz] by (simp add: c(2))
  have rel: "list_all (\<lambda>c. \<not> is_release c) ?ext"
    using c(5) Create_tail_no_release[of h s1] texture_call_not_release
    by (auto simp: list_all_iff)
  have cnt: "length (filter (is_TexImage sz) ?ext) = ATTACHMENT_COUNT h"
    using c(6) by (simp add: Create_tail_no_TexImage)
  have gen: "\<forall>i. i < ATTACHMENT_COUNT h \<and> i < length (bufferTextureIDs s) \<longrightarrow>
        glGenTextures 1 (bufferTextureIDs ?s2 ! i) \<in> set ?ext"
    using c(7) by simp
  have bind: "FBO_Bind \<in> set ?ext" by (simp add: Create_tail_Bind)
  have st: "\<exists>X. ret = checkStatus drv X" using c(3) by blast
  have va: "\<exists>Y. IsValid (buffer ?s2) = validAfterCheck drv Y" using c(4) by auto
  have "Create h drv sz (s, gl) = Inr (ret, ?s2, gl @ ?ext)" using c(1) by simp
  with fr tags rel cnt gen bind st va show ?thesis by blast
qed

section \<open>Update\<close>

lemma HasAttachments_curr [simp]:
  "HasAttachments (s\<lparr>currBufferSize := x\<rparr>) = HasAttachments s"
  "HasAttachments (s\<lparr>prevBufferSize := x\<rparr>) = HasAttachments s"
  by (simp_all add: HasAttachments_def)

lemma HasAttachments_slot0:
  "0 < length (bufferAttachments s) \<Longrightarrow> bufferAttachments s ! 0 = attachment_point h 0 \<Longrightarrow>
     HasAttachments s"
proof -
  assume a: "0 < length (bufferAttachments s)" "bufferAttachments s ! 0 = attachment_point h 0"
  have "attachment_point h 0 \<noteq> 0"
    by (simp add: attachment_point_def GL_DEPTH_ATTACHMENT_def GL_COLOR_ATTACHMENT0_def)
  with a nth_mem[OF a(1)]
  have "bufferAttachments s ! 0 \<in> set (bufferAttachments s) \<and> bufferAttachments s ! 0 \<noteq> 0"
    by metis
  then show ?thesis unfolding HasAttachments_def list_ex_iff by blast
qed

lemma Update_invalid:
  "\<not> IsValid (buffer s) \<Longrightarrow>
     Update h gr drv init (s, gl) = Inr (False, s\<lparr>currBufferSize := GetWantedSize gr True\<rparr>, gl)"
  by (simp add: Update_def)

lemma Update_unchanged:
  "IsValid (buffer s) \<Longrightarrow> HasAttachments s \<Longrightarrow> prevBufferSize s = GetWantedSize gr True \<Longrightarrow>
     Update h gr drv init (s, gl) = Inr (True, s\<lparr>currBufferSize := GetWantedSize gr True\<rparr>, gl)"
  by (simp add: Update_def)

lemma Update_create_fresh:
  "IsValid (buffer s) \<Longrightarrow> \<not> HasAttachments s \<Longrightarrow>
     Update h gr drv init (s, gl) =
       Create h drv (GetWantedSize gr True)
         (s\<lparr>currBufferSize := GetWantedSize gr True, prevBufferSize := GetWantedSize gr True\<rparr>, gl)"
  by (simp add: Update_def)

lemma Update_create_resized:
  "IsValid (buffer s) \<Longrightarrow> HasAttachments s \<Longrightarrow> prevBufferSize s \<noteq> GetWantedSize gr True \<Longrightarrow>
     Update h gr drv init (s, gl) =
       (case DetachTextures h init (s\<lparr>currBufferSize := GetWantedSize gr True\<rparr>, gl) of
          (s1, gl1) \<Rightarrow> Create h drv (GetWantedSize gr True)
                        (s1\<lparr>prevBufferSize := GetWantedSize gr True\<rparr>, gl1))"
  by (auto simp add: Update_def DetachTextures_def Let_def split: prod.splits)

lemma DetachTextures_result:
  "\<exists>sd d. DetachTextures h init (s, gl) = (sd, gl @ d) \<and>
     buffer sd = buffer s \<and> prevBufferSize sd = prevBufferSize s \<and>
     currBufferSize sd = currBufferSize s \<and> dead sd = dead s \<and> bound sd = bound s \<and>
     name sd = name s \<and> filter (is_TexImage sz) d = [] \<and> \<not> FBO_CheckStatus nm \<in> set d \<and>
     (init \<longrightarrow> d = [] \<and> sd = s) \<and> (arrays_ok h s \<longrightarrow> arrays_ok h sd)"
  by (auto simp add: DetachTextures_def arrays_ok_def filter_map comp_def)

lemma arrays_ok_sizes [simp]:
  "arrays_ok h (s\<lparr>currBufferSize := x\<rparr>) = arrays_ok h s"
  "arrays_ok h (s\<lparr>prevBufferSize := x\<rparr>) = arrays_ok h s"
  by (simp_all add: arrays_ok_def)

lemma Update_recreate:
  assumes v: "IsValid (buffer s)"
    and r: "\<not> (HasAttachments s \<and> prevBufferSize s = GetWantedSize gr True)"
  shows "\<exists>ret s2 ext.
     Update h gr drv init (s, gl) = Inr (ret, s2, gl @ ext) \<and>
     prevBufferSize s2 = GetWantedSize gr True \<and> currBufferSize s2 = GetWantedSize gr True \<and>
     dead s2 = dead s \<and> bound s2 = bound s \<and>
     (\<exists>X. ret = checkStatus drv X) \<and> (\<exists>Y. IsValid (buffer s2) = validAfterCheck drv Y) \<and>
     length (filter (is_TexImage (GetWantedSize gr True)) ext) = ATTACHMENT_COUNT h \<and>
     FBO_Bind \<in> set ext \<and>
     (init \<or> \<not> HasAttachments s \<longrightarrow> list_all (\<lambda>c. \<not> is_release c) ext) \<and>
     (arrays_ok h s \<longrightarrow> arrays_ok h s2 \<and> HasAttachments s2 \<and>
        (\<forall>i < ATTACHMENT_COUNT h.
            glGenTextures 1 (bufferTextureIDs s2 ! i) \<in> set ext \<and>
            bufferAttachments s2 ! i = attachment_point h i))"
proof -
  let ?W = "GetWantedSize gr True"
  let ?s = "s\<lparr>currBufferSize := ?W\<rparr>"
  obtain sd d where d: "(if HasAttachments s then DetachTextures h init (?s, gl) else (?s, gl)) = (sd, gl @ d)"
    "buffer sd = buffer s" "prevBufferSize sd = prevBufferSize s" "currBufferSize sd = ?W"
    "dead sd = dead s" "bound sd = bound s" "filter (is_TexImage ?W) d = []"
    "init \<or> \<not> HasAttachments s \<longrightarrow> d = []" "arrays_ok h s \<longrightarrow> arrays_ok h sd"
  proof (cases "HasAttachments s")
    case True
    obtain sd d where "DetachTextures h init (?s, gl) = (sd, gl @ d) \<and>
     buffer sd = buffer ?s \<and> prevBufferSize sd = prevBufferSize ?s \<and>
     currBufferSize sd = currBufferSize ?s \<and> dead sd = dead ?s \<and> bound sd = bound ?s \<and>
     name sd = name ?s \<and> filter (is_TexImage ?W) d = [] \<and> \<not> FBO_CheckStatus [] \<in> set d \<and>
     (init \<longrightarrow> d = [] \<and> sd = ?s) \<and> (arrays_ok h ?s \<longrightarrow> arrays_ok h sd)"
      using DetachTextures_result[of h init ?s gl ?W "[]"] by blast
    with True that[of sd d] show ?thesis by simp
  next
    case False
    with that[of ?s "[]"] show ?thesis by simp
  qed
  have upd: "Update h gr drv init (s, gl) = Create h drv ?W (sd\<lparr>prevBufferSize := ?W\<rparr>, gl @ d)"
  proof (cases "HasAttachments s")
    case True
    then have ne: "prevBufferSize s \<noteq> ?W" using r by simp
    have "DetachTextures h init (?s, gl) = (sd, gl @ d)" using d(1) True by simp
    then show ?thesis using Update_create_resized[OF v True ne, of h drv init gl] by simp
  next
    case False
    then have "sd = ?s" "d = []" using d(1) by simp_all
    then show ?thesis using Update_create_fresh[OF v False, of h gr drv init gl] by simp
  qed
  have v': "IsValid (buffer (sd\<lparr>prevBufferSize := ?W\<rparr>))" using v d(2) by simp
  obtain ret s2 ext where c: "Create h drv ?W (sd\<lparr>prevBufferSize := ?W\<rparr>, gl @ d) = Inr (ret, s2, (gl @ d) @ ext)"
     "prevBufferSize s2 = ?W" "currBufferSize s2 = ?W"
     "dead s2 = dead s" "bound s2 = bound s"
     "length (bufferTextureIDs s2) = length (bufferTextureIDs sd)"
     "length (bufferAttachments s2) = length (bufferAttachments sd)"
     "\<exists>X. ret = checkStatus drv X" "\<exists>Y. IsValid (buffer s2) = validAfterCheck drv Y"
     "length (filter (is_TexImage ?W) ext) = ATTACHMENT_COUNT h"
     "list_all (\<lambda>c. \<not> is_release c) ext" "FBO_Bind \<in> set ext"
     "\<forall>i. i < ATTACHMENT_COUNT h \<and> i < length (bufferTextureIDs sd) \<longrightarrow>
        glGenTextures 1 (bufferTextureIDs s2 ! i) \<in> set ext"
     "\<forall>i. i < ATTACHMENT_COUNT h \<and> i < length (bufferAttachments sd) \<longrightarrow>
        bufferAttachments s2 ! i = attachment_point h i"
    using Create_result[OF v', of h drv ?W "gl @ d"] d(4,5,6) by auto
  have ok: "arrays_ok h s \<longrightarrow> arrays_ok h s2 \<and> HasAttachments s2 \<and>
        (\<forall>i < ATTACHMENT_COUNT h.
            glGenTextures 1 (bufferTextureIDs s2 ! i) \<in> set (d @ ext) \<and>
            bufferAttachments s2 ! i = attachment_point h i)"
  proof
    assume "arrays_ok h s"
    then have a: "arrays_ok h sd" using d(9) by simp
    then have a2: "arrays_ok h s2" using c(6,7) by (simp add: arrays_ok_def)
    have "0 < length (bufferAttachments s2)" "bufferAttachments s2 ! 0 = attachment_point h 0"
      using a a2 c(14) by (simp_all add: arrays_ok_def)
    then have "HasAttachments s2" by (rule HasAttachments_slot0)
    moreover have "\<forall>i < ATTACHMENT_COUNT h.
            glGenTextures 1 (bufferTextureIDs s2 ! i) \<in> set (d @ ext) \<and>
            bufferAttachments s2 ! i = attachment_point h i"
      using a c(13,14) by (simp add: arrays_ok_def)
    ultimately show "arrays_ok h s2 \<and> HasAttachments s2 \<and>
        (\<forall>i < ATTACHMENT_COUNT h.
            glGenTextures 1 (bufferTextureIDs s2 ! i) \<in> set (d @ ext) \<and>
            bufferAttachments s2 ! i = attachment_point h i)"
      using a2 by blast
  qed
  have "Update h gr drv init (s, gl) = Inr (ret, s2, gl @ (d @ ext))" using upd c(1) by simp
  moreover have "length (filter (is_TexImage ?W) (d @ ext)) = ATTACHMENT_COUNT h"
    using d(7) c(10) by simp
  moreover have "FBO_Bind \<in> set (d @ ext)" using c(12) by simp
  moreover have "init \<or> \<not> HasAttachments s \<longrightarrow> list_all (\<lambda>c. \<not> is_release c) (d @ ext)"
    using d(8) c(11) by auto
  ultimately show ?thesis using c(2,3,4,5,8,9) ok by blast
qed

lemma Update_fixpoint:
  assumes "HasAttachments s" "prevBufferSize s = GetWantedSize gr True"
    "currBufferSize s = GetWantedSize gr True"
  shows "Update h gr drv init (s, gl) = Inr (IsValid (buffer s), s, gl)"
proof -
  have "s\<lparr>currBufferSize := GetWantedSize gr True\<rparr> = s" using assms(3) by (cases s) simp
  then show ?thesis
    using assms(1,2) Update_unchanged[of s gr h drv init gl] Update_invalid[of s h gr drv init gl]
    by (cases "IsValid (buffer s)") simp_all
qed

lemma Updates_fixpoint:
  assumes "HasAttachments s" "prevBufferSize s = GetWantedSize gr True"
    "currBufferSize s = GetWantedSize gr True"
  shows "Updates h gr drv inits (s, gl) = Inr (s, gl)"
  by (induction inits) (simp_all add: Update_fixpoint[OF assms])

lemma Update_returns: "\<exists>ret s2 gl2. Update h gr drv init (s, gl) = Inr (ret, s2, gl2) \<and>
   currBufferSize s2 = GetWantedSize gr True"
proof (cases "IsValid (buffer s)")
  case False
  then show ?thesis by (auto simp add: Update_invalid)
next
  case True
  show ?thesis
  proof (cases "HasAttachments s \<and> prevBufferSize s = GetWantedSize gr True")
    case True
    with \<open>IsValid (buffer s)\<close> show ?thesis by (auto simp add: Update_unchanged)
  next
    case False
    from Update_recreate[OF \<open>IsValid (buffer s)\<close> False, of h drv init gl]
    show ?thesis by blast
  qed
qed

section \<open>Kill and the concrete inputs\<close>

lemma Kill_Inr:
  "Kill h dtor (s, gl) = Inr (s1, gl1) \<Longrightarrow> dead s1 \<and> buffer s1 = buffer s \<and> bound s1 = bound s"
  by (auto simp add: Kill_def DetachTextures_def split: if_splits)

lemma Kill_alive: "\<not> dead s \<Longrightarrow> \<exists>s1 gl1. Kill h dtor (s, gl) = Inr (s1, gl1)"
  by (simp add: Kill_def split: prod.splits)

lemma fresh_gb_facts:
  "arrays_ok hdr6 fresh_gb" "IsValid (buffer fresh_gb)" "\<not> HasAttachments fresh_gb"
  "\<not> dead fresh_gb" "\<not> bound fresh_gb"
  by (simp_all add: arrays_ok_def hdr6_def fresh_gb_def HasAttachments_def list_ex_iff)

lemma view800_size: "GetWantedSize view800 True = (800, 600)"
  by (simp add: GetWantedSize_def view800_def)

lemma counting_driver_simps:
  "checkStatus (counting_driver st va) X = st" "validAfterCheck (counting_driver st va) Y = va"
  by (simp_all add: counting_driver_def)

lemma Init_Inr:
  "Init h gr ctor (s, gl) = Inr (s1, gl1) \<Longrightarrow>
     gl1 = gl \<and> buffer s1 = buffer s \<and> \<not> HasAttachments s1 \<and> \<not> dead s1 \<and>
     prevBufferSize s1 = (0, 0) \<and> bufferTextureIDs s1 = replicate (ATTACHMENT_COUNT h) 0"
  by (auto simp add: Init_def GetWantedSize_def HasAttachments_def list_ex_iff split: if_splits)

lemma used_gb_facts:
  "arrays_ok hdr6 used_gb" "IsValid (buffer used_gb)" "HasAttachments used_gb"
  "prevBufferSize used_gb \<noteq> GetWantedSize view800 True"
  by (simp_all add: arrays_ok_def hdr6_def used_gb_def HasAttachments_def view800_size)

lemma Create_tail_buffer [simp]: "Create_tail h (s\<lparr>buffer := b\<rparr>) = Create_tail h s"
  by (simp add: Create_tail_def)

lemma Kill_alive_valid:
  "\<not> dead s \<Longrightarrow> IsValid (buffer s) \<Longrightarrow>
     \<exists>s1 d. Kill h dtor (s, gl) = Inr (s1, gl @ d) \<and> dead s1 \<and> buffer s1 = buffer s \<and>
       \<not> HasAttachments s1 \<and> filter (is_TexImage sz) d = []"
  by (simp add: Kill_def DetachTextures_def HasAttachments_def list_ex_iff filter_map comp_def)

lemma Create_fails_iff:
  "(Create h drv sz (s, gl) = Inl AssertionFailed) = (\<not> IsValid (buffer s))"
proof (cases "IsValid (buffer s)")
  case True
  from Create_Inr[OF True, of h drv sz gl] show ?thesis using True by auto
next
  case False
  then show ?thesis by (simp add: Create_Inl)
qed

section \<open>The claims\<close>

subsection \<open>C1: the invariant check of Init\<close>

text \<open>
  Claim C1, as the code has it: \<open>Init(ctor)\<close> fails its assertion exactly when the
  instance is dead and the call comes from the construction path (\<open>ctor\<close> is true). On an
  instance that is alive \<open>Init\<close> never fails, whatever the flag; on a dead instance it is
  legal exactly when the call is a reload (\<open>ctor\<close> is false), as the comment above the
  assertion says.
\<close>

theorem Init_fails_iff:
  "(Init h gr ctor (s, gl) = Inl AssertionFailed) = (dead s \<and> ctor)"
  by (simp add: Init_def)


text \<open>The theorem at a dead instance, entered from construction and as a reload.\<close>

theorem Init_fails_iff_witness:
  "Init hdr6 view800 True (fresh_gb\<lparr>dead := True\<rparr>, [] :: real GLcall list) = Inl AssertionFailed \<and>
   Init hdr6 view800 False (fresh_gb\<lparr>dead := True\<rparr>, [] :: real GLcall list) \<noteq> Inl AssertionFailed"
  using Init_fails_iff[of hdr6 view800 True "fresh_gb\<lparr>dead := True\<rparr>" "[] :: real GLcall list"]
        Init_fails_iff[of hdr6 view800 False "fresh_gb\<lparr>dead := True\<rparr>" "[] :: real GLcall list"]
  by simp

text \<open>
  Against C1 as stated (failure exactly when alive and not from construction): a reload of
  an instance that is alive passes the check, and a dead instance entered from construction
  fails it.
\<close>

theorem Init_alive_reload_counterexample:
  "\<not> dead fresh_gb \<and>
   Init hdr6 view800 False (fresh_gb, [] :: real GLcall list) \<noteq> Inl AssertionFailed \<and>
   dead (fresh_gb\<lparr>dead := True\<rparr>) \<and>
   Init hdr6 view800 True (fresh_gb\<lparr>dead := True\<rparr>, [] :: real GLcall list) = Inl AssertionFailed"
  by (simp add: Init_def fresh_gb_def)

subsection \<open>C2: calls on an instance that was killed\<close>

text \<open>
  Claim C2, as the code has it: once \<open>Kill\<close> has completed the instance is dead, and the
  flag \<open>dead\<close> is read by \<open>Kill\<close> and \<open>Init\<close> only. A further \<open>Kill\<close> fails its
  assertion unless it comes from destruction (then it does nothing); \<open>Init\<close> fails its
  assertion when entered from construction and passes as a reload, which makes the
  instance alive again. \<open>Update\<close>, \<open>Create\<close>, \<open>Clear\<close> and \<open>SetDepthRange\<close> do not read
  the flag: \<open>Update\<close> always returns its boolean, \<open>Create\<close> asserts only that the surface
  is valid, \<open>Clear\<close> asserts only that the surface is bound, and \<open>SetDepthRange\<close> has no
  assertion and issues its two calls.
\<close>

theorem calls_after_Kill:
  assumes "Kill h dtor (s, gl) = Inr (s1, gl1)"
  shows "dead s1 \<and>
         Kill h False (s1, gl1) = Inl AssertionFailed \<and>
         Kill h True (s1, gl1) = Inr (s1, gl1) \<and>
         Init h gr True (s1, gl1) = Inl AssertionFailed \<and>
         (\<exists>s2. Init h gr False (s1, gl1) = Inr (s2, gl1) \<and> \<not> dead s2) \<and>
         (\<exists>ret s2 gl2. Update h gr drv init (s1, gl1) = Inr (ret, s2, gl2)) \<and>
         ((Create h drv sz (s1, gl1) = Inl AssertionFailed) = (\<not> IsValid (buffer s1))) \<and>
         ((Clear (s1, gl1) = Inl AssertionFailed) = (\<not> bound s1)) \<and>
         SetDepthRange nearDepth farDepth (s1, gl1) =
           (s1, gl1 @ [glClearDepth (std_max nearDepth farDepth), DepthFunc GL_LEQUAL])"
proof -
  have d: "dead s1" using Kill_Inr[OF assms] by simp
  have "\<exists>ret s2 gl2. Update h gr drv init (s1, gl1) = Inr (ret, s2, gl2)"
    using Update_returns[of h gr drv init s1 gl1] by blast
  then show ?thesis
    using d by (simp add: Kill_def Init_def Clear_def SetDepthRange_def Create_fails_iff)
qed

text \<open>The theorem at the object without images, killed outside destruction.\<close>

theorem calls_after_Kill_witness:
  "\<exists>s1 gl1.
     Kill hdr6 False (fresh_gb, [] :: real GLcall list) = Inr (s1, gl1) \<and>
     dead s1 \<and>
     Kill hdr6 False (s1, gl1) = Inl AssertionFailed \<and>
     Init hdr6 view800 True (s1, gl1) = Inl AssertionFailed \<and>
     (\<exists>ret s2 gl2.
        Update hdr6 view800 (counting_driver True True) True (s1, gl1) = Inr (ret, s2, gl2))"
proof -
  obtain s1 gl1 where k: "Kill hdr6 False (fresh_gb, [] :: real GLcall list) = Inr (s1, gl1)"
    using Kill_alive[OF fresh_gb_facts(4), of hdr6 False "[] :: real GLcall list"] by blast
  show ?thesis
    using calls_after_Kill[OF k, of view800 "counting_driver True True" True "(800, 600)" 0 1] k
    by blast
qed

text \<open>
  Against C2 as stated: on the killed instance \<open>Update(true)\<close> is not rejected; it returns
  \<open>true\<close> and has allocated six images of 800 by 600.
\<close>

theorem Update_after_Kill_counterexample:
  "\<not> isl (Kill hdr6 False (fresh_gb, [] :: real GLcall list)) \<and>
   dead (fst (projr (Kill hdr6 False (fresh_gb, [] :: real GLcall list)))) \<and>
   \<not> isl (Update hdr6 view800 (counting_driver True True) True
            (projr (Kill hdr6 False (fresh_gb, [])))) \<and>
   fst (projr (Update hdr6 view800 (counting_driver True True) True
            (projr (Kill hdr6 False (fresh_gb, []))))) \<and>
   length (filter (is_TexImage (800, 600))
     (snd (snd (projr (Update hdr6 view800 (counting_driver True True) True
            (projr (Kill hdr6 False (fresh_gb, [])))))))) = 6"
proof -
  obtain s1 d where k: "Kill hdr6 False (fresh_gb, [] :: real GLcall list) = Inr (s1, [] @ d)"
    "dead s1" "buffer s1 = buffer fresh_gb" "\<not> HasAttachments s1"
    "filter (is_TexImage (800, 600)) d = []"
    using Kill_alive_valid[OF fresh_gb_facts(4,2), of hdr6 False "[] :: real GLcall list" "(800, 600)"]
    by blast
  have v: "IsValid (buffer s1)" using k(3) fresh_gb_facts(2) by simp
  have r: "\<not> (HasAttachments s1 \<and> prevBufferSize s1 = GetWantedSize view800 True)"
    using k(4) by simp
  obtain ret s2 ext where u:
    "Update hdr6 view800 (counting_driver True True) True (s1, d) = Inr (ret, s2, d @ ext)"
    "\<exists>X. ret = checkStatus (counting_driver True True) X"
    "length (filter (is_TexImage (GetWantedSize view800 True)) ext) = ATTACHMENT_COUNT hdr6"
    using Update_recreate[OF v r, of hdr6 "counting_driver True True" True d] by blast
  have ret: "ret" using u(2) by (simp add: counting_driver_simps)
  have n: "length (filter (is_TexImage (800, 600)) (d @ ext)) = 6"
    using u(3) k(5) by (simp add: view800_size hdr6_def)
  show ?thesis using k(1,2) u(1) ret n by simp
qed

subsection \<open>C3: the size Update recomputes\<close>

text \<open>
  Claim C3, as the code has it: \<open>GetWantedSize(allowed)\<close> is (0,0) when \<open>allowed\<close> is
  false and the view size when it is true; \<open>Update\<close> always calls it with \<open>true\<close>, so
  every call of \<open>Update\<close> returns and leaves \<open>currBufferSize\<close> equal to the current view
  size, whatever the flag \<open>init\<close> of \<open>Update\<close> is.
\<close>

theorem Update_desired_size:
  "GetWantedSize gr False = (0, 0) \<and>
   GetWantedSize gr True = (viewSizeX gr, viewSizeY gr) \<and>
   (\<exists>ret s1 gl1. Update h gr drv init (s, gl) = Inr (ret, s1, gl1) \<and>
      currBufferSize s1 = (viewSizeX gr, viewSizeY gr))"
  using Update_returns[of h gr drv init s gl] by (simp add: GetWantedSize_def)


text \<open>The theorem at a view of 800 by 600 and the flag false.\<close>

theorem Update_desired_size_witness:
  "\<exists>ret s1 gl1.
     Update hdr6 view800 (counting_driver True True) False (fresh_gb, []) = Inr (ret, s1, gl1) \<and>
     currBufferSize s1 = (800, 600)"
  using Update_desired_size[of view800 hdr6 "counting_driver True True" False fresh_gb "[]"]
  by (simp add: view800_def)

text \<open>
  Against C3 as stated: \<open>Update\<close> with the flag false, at a view of 800 by 600, leaves
  \<open>currBufferSize\<close> at (800,600), not at (0,0).
\<close>

theorem Update_flag_false_counterexample:
  "currBufferSize (fst (snd (projr
      (Update hdr6 view800 (counting_driver True True) False (fresh_gb, []))))) = (800, 600) \<and>
   ((800, 600) :: int2) \<noteq> (0, 0)"
proof -
  obtain ret s1 gl1 where
    "Update hdr6 view800 (counting_driver True True) False (fresh_gb, []) = Inr (ret, s1, gl1)"
    "currBufferSize s1 = GetWantedSize view800 True"
    using Update_returns[of hdr6 view800 "counting_driver True True" False fresh_gb "[]"] by blast
  then show ?thesis by (simp add: view800_size)
qed

subsection \<open>C4: Update on a surface that is not valid\<close>

text \<open>
  Claim C4, as the code has it: when \<open>buffer.IsValid()\<close> is false, \<open>Update\<close> returns the
  boolean \<open>false\<close> (it does not assert); it issues no call at all, so no allocation and no
  detachment, and the only field it writes is \<open>currBufferSize\<close>.
\<close>

theorem Update_invalid_surface:
  "\<not> IsValid (buffer s) \<Longrightarrow>
     Update h gr drv init (s, gl) =
       Inr (False, s\<lparr>currBufferSize := (viewSizeX gr, viewSizeY gr)\<rparr>, gl)"
  by (simp add: Update_invalid GetWantedSize_def)


text \<open>The theorem at an object whose surface is not valid.\<close>

theorem Update_invalid_surface_witness:
  "\<not> IsValid (buffer (fresh_gb\<lparr>buffer := FBO False\<rparr>)) \<and>
   Update hdr6 view800 (counting_driver True True) True (fresh_gb\<lparr>buffer := FBO False\<rparr>, []) =
     Inr (False, fresh_gb\<lparr>buffer := FBO False, currBufferSize := (800, 600)\<rparr>, [])"
  using Update_invalid_surface[of "fresh_gb\<lparr>buffer := FBO False\<rparr>" hdr6 view800
          "counting_driver True True" True "[]"]
  by (simp add: view800_def)

text \<open>
  Against C4 as stated (an assertion failure instead of a boolean result): the call returns,
  with the value \<open>false\<close>.
\<close>

theorem Update_invalid_surface_counterexample:
  "\<not> IsValid (buffer (fresh_gb\<lparr>buffer := FBO False\<rparr>)) \<and>
   Update hdr6 view800 (counting_driver True True) True (fresh_gb\<lparr>buffer := FBO False\<rparr>, [])
     \<noteq> Inl AssertionFailed \<and>
   \<not> fst (projr (Update hdr6 view800 (counting_driver True True) True
                    (fresh_gb\<lparr>buffer := FBO False\<rparr>, [])))"
  by (simp add: Update_invalid)

subsection \<open>C5: the first Update after Init\<close>

text \<open>
  Claim C5: for every view size and every earlier state of the object (also one whose
  \<open>prevBufferSize\<close> already equals the view size), when \<open>Init\<close> has passed and the surface
  is valid, the next \<open>Update\<close> is the call of \<open>Create\<close> with the view size: it returns,
  having bound the surface and allocated \<open>ATTACHMENT_COUNT\<close> images of that size, and
  it does not return through the comparison of the sizes.
\<close>

theorem first_Update_after_Init_allocates:
  assumes "Init h gr0 ctor (s, gl) = Inr (s1, gl1)" and "IsValid (buffer s)"
  shows "Update h gr drv init (s1, gl1) =
           Create h drv (GetWantedSize gr True)
             (s1\<lparr>currBufferSize := GetWantedSize gr True,
                 prevBufferSize := GetWantedSize gr True\<rparr>, gl1) \<and>
         (\<exists>ret s2 ext.
            Update h gr drv init (s1, gl1) = Inr (ret, s2, gl1 @ ext) \<and>
            length (filter (is_TexImage (viewSizeX gr, viewSizeY gr)) ext) = ATTACHMENT_COUNT h \<and>
            FBO_Bind \<in> set ext \<and>
            prevBufferSize s2 = (viewSizeX gr, viewSizeY gr))"
proof -
  have v: "IsValid (buffer s1)" and n: "\<not> HasAttachments s1"
    using Init_Inr[OF assms(1)] assms(2) by simp_all
  then have r: "\<not> (HasAttachments s1 \<and> prevBufferSize s1 = GetWantedSize gr True)" by simp
  have w: "GetWantedSize gr True = (viewSizeX gr, viewSizeY gr)" by (simp add: GetWantedSize_def)
  show ?thesis
    using Update_create_fresh[OF v n, of h gr drv init gl1]
          Update_recreate[OF v r, of h drv init gl1]
    unfolding w by blast
qed

text \<open>
  The theorem at a reload of an object whose previous size was already 800 by 600.
\<close>

theorem first_Update_after_Init_allocates_witness:
  "Init hdr6 view800 False
     (fresh_gb\<lparr>prevBufferSize := (800, 600), currBufferSize := (800, 600), dead := True\<rparr>,
      [] :: real GLcall list)
     = Inr (reloaded_gb, []) \<and>
   IsValid (buffer (fresh_gb\<lparr>prevBufferSize := (800, 600), currBufferSize := (800, 600),
                              dead := True\<rparr>)) \<and>
   (\<exists>ret s2 ext.
      Update hdr6 view800 (counting_driver True True) True (reloaded_gb, []) = Inr (ret, s2, ext) \<and>
      length (filter (is_TexImage (800, 600)) ext) = 6 \<and>
      prevBufferSize s2 = (800, 600))"
proof -
  let ?s = "fresh_gb\<lparr>prevBufferSize := (800, 600), currBufferSize := (800, 600), dead := True\<rparr>"
  have i: "Init hdr6 view800 False (?s, [] :: real GLcall list) = Inr (reloaded_gb, [])"
    by (simp add: Init_def fresh_gb_def reloaded_gb_def hdr6_def view800_def GetWantedSize_def)
  have v: "IsValid (buffer ?s)" by (simp add: fresh_gb_def)
  obtain ret s2 ext where u:
    "Update hdr6 view800 (counting_driver True True) True (reloaded_gb, []) = Inr (ret, s2, [] @ ext)"
    "length (filter (is_TexImage (viewSizeX view800, viewSizeY view800)) ext) = ATTACHMENT_COUNT hdr6"
    "prevBufferSize s2 = (viewSizeX view800, viewSizeY view800)"
    using first_Update_after_Init_allocates[OF i v, of view800 "counting_driver True True" True]
    by blast
  have "length (filter (is_TexImage (800, 600)) ext) = 6" "prevBufferSize s2 = (800, 600)"
    using u(2,3) by (simp_all add: view800_def hdr6_def)
  with u(1) i v show ?thesis by auto
qed

subsection \<open>C6: two calls of Update with the same wanted size\<close>



subsection \<open>C7: no retry after a failed Create\<close>

text \<open>
  Claim C7: when \<open>Update\<close> takes the path to \<open>Create\<close> (valid surface, and no attachments
  or a changed size), then whatever \<open>Create\<close> returns, \<open>prevBufferSize\<close> is the new
  \<open>currBufferSize\<close> afterwards; and every later \<open>Update\<close> at the same view size, one or
  any number of them, leaves the object and the call log as they are, so the allocation
  is not tried again.
\<close>

theorem failed_Create_is_not_retried:
  assumes "arrays_ok h s" and "IsValid (buffer s)"
    and "\<not> (HasAttachments s \<and> prevBufferSize s = GetWantedSize gr True)"
    and "Update h gr drv init (s, gl) = Inr (ret, s1, gl1)"
  shows "prevBufferSize s1 = GetWantedSize gr True \<and>
         currBufferSize s1 = GetWantedSize gr True \<and>
         Update h gr drv' init' (s1, gl1) = Inr (IsValid (buffer s1), s1, gl1) \<and>
         Updates h gr drv' inits (s1, gl1) = Inr (s1, gl1)"
proof -
  from Update_recreate[OF assms(2,3), of h drv init gl] assms(1,4)
  have f: "HasAttachments s1" "prevBufferSize s1 = GetWantedSize gr True"
          "currBufferSize s1 = GetWantedSize gr True"
    by auto
  show ?thesis
    using f Update_fixpoint[OF f, of h drv' init' gl1] Updates_fixpoint[OF f, of h drv' inits gl1]
    by simp
qed

text \<open>The theorem at a driver whose status check fails, followed by three more calls.\<close>

theorem failed_Create_is_not_retried_witness:
  "\<exists>s1 gl1.
     Update hdr6 view800 (counting_driver False False) True (fresh_gb, []) = Inr (False, s1, gl1) \<and>
     prevBufferSize s1 = (800, 600) \<and>
     Updates hdr6 view800 (counting_driver True True) [True, False, True] (s1, gl1) = Inr (s1, gl1)"
proof -
  have r: "\<not> (HasAttachments fresh_gb \<and> prevBufferSize fresh_gb = GetWantedSize view800 True)"
    by (simp add: fresh_gb_facts)
  obtain ret s1 ext where u:
    "Update hdr6 view800 (counting_driver False False) True (fresh_gb, []) = Inr (ret, s1, [] @ ext)"
    "\<exists>X. ret = checkStatus (counting_driver False False) X"
    using Update_recreate[OF fresh_gb_facts(2) r, of hdr6 "counting_driver False False" True "[]"]
    by blast
  have ret: "ret = False" using u(2) by (simp add: counting_driver_simps)
  show ?thesis
    using failed_Create_is_not_retried[OF fresh_gb_facts(1,2) r u(1),
        of "counting_driver True True" True "[True, False, True]"] u(1) ret
    by (auto simp add: view800_size)
qed

subsection \<open>C8: the order of the calls of Create\<close>

text \<open>
  Claim C8: every call of \<open>Create\<close> on a valid surface returns, and the calls it has
  added to the log are, in this order: a block of texture calls only, which holds all
  \<open>ATTACHMENT_COUNT\<close> image allocations and the generation of every slot's handle; then
  \<open>Bind\<close>; then one \<open>AttachTexture\<close> for every slot, of the slot's handle to the slot's
  recorded attachment point (from the last slot down to the first); then the unbinding of
  the texture, the draw buffers and the status check; and last \<open>Unbind\<close>. So no
  allocation follows the binding or an attachment, and the surface is unbound when
  \<open>Create\<close> returns. (On a surface that is not valid the assertion ends the call.)
\<close>

theorem Create_call_order:
  assumes "arrays_ok h s" and "IsValid (buffer s)"
  shows "\<exists>ret s1 A.
           Create h drv sz (s, gl) =
             Inr (ret, s1,
                  gl @ A @ [FBO_Bind] @
                  map (\<lambda>i. FBO_AttachTexture (bufferTextureIDs s1 ! i) GL_TEXTURE_2D
                             (bufferAttachments s1 ! i))
                    (rev [0 ..< ATTACHMENT_COUNT h]) @
                  [glBindTexture GL_TEXTURE_2D 0,
                   glDrawBuffers (ATTACHMENT_COUNT h - 1)
                     (take (ATTACHMENT_COUNT h - 1) (bufferAttachments s1)),
                   FBO_CheckStatus (name s1), FBO_Unbind]) \<and>
           list_all is_texture_call A \<and>
           length (filter (is_TexImage sz) A) = ATTACHMENT_COUNT h \<and>
           (\<forall>i < ATTACHMENT_COUNT h.
               glGenTextures 1 (bufferTextureIDs s1 ! i) \<in> set A \<and>
               bufferAttachments s1 ! i = attachment_point h i)"
proof -
  obtain r v0 s0 A where c:
    "Create h drv sz (s, gl) = Inr (r, s0\<lparr>buffer := FBO v0\<rparr>, gl @ A @ Create_tail h s0)"
    "s0 = fst (snd (Create_alloc h drv sz 0 (s, gl)))"
    "list_all is_texture_call A"
    "length (filter (is_TexImage sz) A) = ATTACHMENT_COUNT h"
    "\<forall>i. i < ATTACHMENT_COUNT h \<and> i < length (bufferTextureIDs s) \<longrightarrow>
        glGenTextures 1 (bufferTextureIDs s0 ! i) \<in> set A"
    using Create_Inr[OF assms(2), of h drv sz gl] by blast
  let ?s1 = "s0\<lparr>buffer := FBO v0\<rparr>"
  have len: "length (bufferTextureIDs s) = ATTACHMENT_COUNT h"
            "length (bufferAttachments s) = ATTACHMENT_COUNT h"
    using assms(1) by (simp_all add: arrays_ok_def)
  have tags: "\<forall>i < ATTACHMENT_COUNT h. bufferAttachments s0 ! i = attachment_point h i"
    using alloc_tags[of 0 _ h "(s, gl)" drv sz] len by (simp add: c(2))
  have "Create h drv sz (s, gl) =
             Inr (r, ?s1,
                  gl @ A @ [FBO_Bind] @
                  map (\<lambda>i. FBO_AttachTexture (bufferTextureIDs ?s1 ! i) GL_TEXTURE_2D
                             (bufferAttachments ?s1 ! i))
                    (rev [0 ..< ATTACHMENT_COUNT h]) @
                  [glBindTexture GL_TEXTURE_2D 0,
                   glDrawBuffers (ATTACHMENT_COUNT h - 1)
                     (take (ATTACHMENT_COUNT h - 1) (bufferAttachments ?s1)),
                   FBO_CheckStatus (name ?s1), FBO_Unbind])"
    by (simp add: c(1) Create_tail_def)
  moreover have "\<forall>i < ATTACHMENT_COUNT h.
                 glGenTextures 1 (bufferTextureIDs ?s1 ! i) \<in> set A \<and>
                 bufferAttachments ?s1 ! i = attachment_point h i"
    using c(5) tags len by simp
  ultimately show ?thesis using c(3,4) by blast
qed

text \<open>The theorem at the object without images, at 800 by 600.\<close>

theorem Create_call_order_witness:
  "\<exists>ret s1 A.
     Create hdr6 (counting_driver True True) (800, 600) (fresh_gb, []) =
       Inr (ret, s1,
            A @ [FBO_Bind] @
            map (\<lambda>i. FBO_AttachTexture (bufferTextureIDs s1 ! i) GL_TEXTURE_2D
                       (bufferAttachments s1 ! i))
              (rev [0 ..< 6]) @
            [glBindTexture GL_TEXTURE_2D 0,
             glDrawBuffers 5 (take 5 (bufferAttachments s1)),
             FBO_CheckStatus (name s1), FBO_Unbind]) \<and>
     list_all is_texture_call A \<and>
     length (filter (is_TexImage (800, 600)) A) = 6"
proof -
  have n: "ATTACHMENT_COUNT hdr6 = 6" by (simp add: hdr6_def)
  show ?thesis
    using Create_call_order[OF fresh_gb_facts(1,2), of "counting_driver True True"
            "(800, 600)" "[]", unfolded n]
    by auto
qed

subsection \<open>C9: attachments after a failed Create\<close>

text \<open>
  Claim C9, as the code has it: when \<open>Update\<close>, called with a valid surface, returns
  \<open>false\<close>, it has run \<open>Create\<close> and the status check has failed; all the same every slot
  holds a handle generated in this call and its attachment point, so \<open>HasAttachments\<close>
  holds afterwards. The next \<open>Update\<close> at the same view size changes neither the object
  nor the call log, and it returns what \<open>buffer.IsValid()\<close> answers at that moment:
  \<open>true\<close> when the surface is still valid, \<open>false\<close> when the failed status check has
  invalidated it.
\<close>

theorem failed_Create_leaves_attachments:
  assumes "arrays_ok h s" and "IsValid (buffer s)"
    and "Update h gr drv init (s, gl) = Inr (False, s1, gl1)"
  shows "\<not> (HasAttachments s \<and> prevBufferSize s = GetWantedSize gr True) \<and>
         (\<exists>ext. gl1 = gl @ ext \<and>
            (\<forall>i < ATTACHMENT_COUNT h. glGenTextures 1 (bufferTextureIDs s1 ! i) \<in> set ext)) \<and>
         (\<forall>i < ATTACHMENT_COUNT h. bufferAttachments s1 ! i = attachment_point h i) \<and>
         HasAttachments s1 \<and>
         Update h gr drv' init' (s1, gl1) = Inr (IsValid (buffer s1), s1, gl1)"
proof -
  have r: "\<not> (HasAttachments s \<and> prevBufferSize s = GetWantedSize gr True)"
    using Update_unchanged[OF assms(2), of gr h drv init gl] assms(3) by auto
  from Update_recreate[OF assms(2) r, of h drv init gl] assms(1,3)
  obtain ext where e: "gl1 = gl @ ext"
      "prevBufferSize s1 = GetWantedSize gr True" "currBufferSize s1 = GetWantedSize gr True"
      "HasAttachments s1"
      "\<forall>i < ATTACHMENT_COUNT h.
            glGenTextures 1 (bufferTextureIDs s1 ! i) \<in> set ext \<and>
            bufferAttachments s1 ! i = attachment_point h i"
    by auto
  have "Update h gr drv' init' (s1, gl1) = Inr (IsValid (buffer s1), s1, gl1)"
    using Update_fixpoint[OF e(4,2,3)] .
  with r e show ?thesis by auto
qed

text \<open>
  The theorem at a driver whose status check fails and leaves the surface valid: the next
  call returns \<open>true\<close>.
\<close>

theorem failed_Create_leaves_attachments_witness:
  "\<exists>s1 gl1.
     Update hdr6 view800 (counting_driver False True) True (fresh_gb, []) = Inr (False, s1, gl1) \<and>
     IsValid (buffer s1) \<and> HasAttachments s1 \<and>
     Update hdr6 view800 (counting_driver False True) False (s1, gl1) = Inr (True, s1, gl1)"
proof -
  have r: "\<not> (HasAttachments fresh_gb \<and> prevBufferSize fresh_gb = GetWantedSize view800 True)"
    by (simp add: fresh_gb_facts)
  obtain ret s1 ext where u:
    "Update hdr6 view800 (counting_driver False True) True (fresh_gb, []) = Inr (ret, s1, [] @ ext)"
    "\<exists>X. ret = checkStatus (counting_driver False True) X"
    "\<exists>Y. IsValid (buffer s1) = validAfterCheck (counting_driver False True) Y"
    using Update_recreate[OF fresh_gb_facts(2) r, of hdr6 "counting_driver False True" True "[]"]
    by blast
  have ret: "ret = False" and v: "IsValid (buffer s1)"
    using u(2,3) by (simp_all add: counting_driver_simps)
  show ?thesis
    using failed_Create_leaves_attachments[OF fresh_gb_facts(1,2) u(1)[unfolded ret],
        of "counting_driver False True" False] u(1) ret v
    by auto
qed

text \<open>
  Against C9 as stated (the next call returns \<open>true\<close>): at a driver whose failed status
  check invalidates the surface, the first \<open>Update\<close> returns \<open>false\<close> and leaves
  attachments, and the next \<open>Update\<close> at the same view size returns \<open>false\<close>.
\<close>

theorem next_Update_after_failed_Create_counterexample:
  "\<not> isl (Update hdr6 view800 (counting_driver False False) True (fresh_gb, [])) \<and>
   \<not> fst (projr (Update hdr6 view800 (counting_driver False False) True (fresh_gb, []))) \<and>
   HasAttachments
     (fst (snd (projr (Update hdr6 view800 (counting_driver False False) True (fresh_gb, []))))) \<and>
   Update hdr6 view800 (counting_driver False False) False
     (snd (projr (Update hdr6 view800 (counting_driver False False) True (fresh_gb, [])))) =
   Inr (False, snd (projr (Update hdr6 view800 (counting_driver False False) True (fresh_gb, []))))"
proof -
  have r: "\<not> (HasAttachments fresh_gb \<and> prevBufferSize fresh_gb = GetWantedSize view800 True)"
    by (simp add: fresh_gb_facts)
  obtain ret s1 ext where u:
    "Update hdr6 view800 (counting_driver False False) True (fresh_gb, []) = Inr (ret, s1, [] @ ext)"
    "prevBufferSize s1 = GetWantedSize view800 True"
    "currBufferSize s1 = GetWantedSize view800 True"
    "\<exists>X. ret = checkStatus (counting_driver False False) X"
    "\<exists>Y. IsValid (buffer s1) = validAfterCheck (counting_driver False False) Y"
    "arrays_ok hdr6 fresh_gb \<longrightarrow> HasAttachments s1"
    using Update_recreate[OF fresh_gb_facts(2) r, of hdr6 "counting_driver False False" True "[]"]
    by blast
  have ret: "\<not> ret" and v: "\<not> IsValid (buffer s1)"
    using u(4,5) by (simp_all add: counting_driver_simps)
  have a: "HasAttachments s1" using u(6) fresh_gb_facts(1) by simp
  have "Update hdr6 view800 (counting_driver False False) False (s1, ext) =
          Inr (IsValid (buffer s1), s1, ext)"
    using Update_fixpoint[OF a u(2,3)] .
  with u(1) ret v a show ?thesis by simp
qed

subsection \<open>C10: a resize during init\<close>

text \<open>
  Claim C10: when \<open>Update(true)\<close> finds attachments and a size that differs from
  \<open>prevBufferSize\<close> (valid surface), \<open>DetachTextures(true)\<close> returns at once and changes
  nothing; the whole call adds no \<open>Detach\<close> and no \<open>glDeleteTextures\<close> to the log; and
  afterwards every slot holds a handle that \<open>glGenTextures\<close> produced in this call, so a
  handle that was not produced in this call is no longer in the array.
\<close>

theorem init_resize_leaks_textures:
  assumes "arrays_ok h s" and "IsValid (buffer s)" and "HasAttachments s"
    and "prevBufferSize s \<noteq> GetWantedSize gr True"
  shows "DetachTextures h True (s\<lparr>currBufferSize := GetWantedSize gr True\<rparr>, gl) =
           (s\<lparr>currBufferSize := GetWantedSize gr True\<rparr>, gl) \<and>
         (\<exists>ret s1 ext.
            Update h gr drv True (s, gl) = Inr (ret, s1, gl @ ext) \<and>
            list_all (\<lambda>c. \<not> is_release c) ext \<and>
            (\<forall>i < ATTACHMENT_COUNT h. glGenTextures 1 (bufferTextureIDs s1 ! i) \<in> set ext) \<and>
            (\<forall>t. glGenTextures 1 t \<notin> set ext \<longrightarrow> t \<notin> set (bufferTextureIDs s1)))"
proof -
  have r: "\<not> (HasAttachments s \<and> prevBufferSize s = GetWantedSize gr True)"
    using assms(4) by simp
  from Update_recreate[OF assms(2) r, of h drv True gl] assms(1)
  obtain ret s1 ext where u: "Update h gr drv True (s, gl) = Inr (ret, s1, gl @ ext)"
      "list_all (\<lambda>c. \<not> is_release c) ext" "arrays_ok h s1"
      "\<forall>i < ATTACHMENT_COUNT h. glGenTextures 1 (bufferTextureIDs s1 ! i) \<in> set ext"
    by auto
  have "\<forall>t. glGenTextures 1 t \<notin> set ext \<longrightarrow> t \<notin> set (bufferTextureIDs s1)"
  proof (intro allI impI notI)
    fix t assume a: "glGenTextures 1 t \<notin> set ext" "t \<in> set (bufferTextureIDs s1)"
    then obtain i where "i < length (bufferTextureIDs s1)" "bufferTextureIDs s1 ! i = t"
      by (auto simp: in_set_conv_nth)
    with u(3,4) have "glGenTextures 1 t \<in> set ext" by (auto simp: arrays_ok_def)
    with a(1) show False by simp
  qed
  with u show ?thesis by (auto simp add: DetachTextures_def)
qed

text \<open>The theorem at the object that holds six images of 640 by 480, at a view of 800 by 600.\<close>

theorem init_resize_leaks_textures_witness:
  "\<exists>ret s1 ext.
     Update hdr6 view800 (counting_driver True True) True (used_gb, []) = Inr (ret, s1, ext) \<and>
     list_all (\<lambda>c. \<not> is_release c) ext"
  using init_resize_leaks_textures[OF used_gb_facts, of "[]" "counting_driver True True"]
  by auto

end
